theory Spec2Isabelle
  imports Complex_Main
begin

section \<open>Blog-AI: the identity layer and the blog pipeline\<close>

text \<open>
  A shallow embedding of \<^verbatim>\<open>backend/app/auth.py\<close>, \<^verbatim>\<open>backend/app/routes/auth.py\<close> and
  \<^verbatim>\<open>backend/app/main.py\<close>.  Every coroutine becomes a function from the state of the
  process (the three MongoDB collections and the clock) to a result and the new state.
  A raised exception is the \<open>Inl\<close> of a sum.  What the code cannot decide by itself
  is an argument: the MongoDB driver's behaviour on one call (\<open>env\<close>), the
  python-jose functions (\<open>jose\<close>), the pipeline's collaborators (\<open>stages\<close>) and
  \<open>bson.ObjectId\<close>.
\<close>

subsection \<open>Python values, dictionaries and exceptions\<close>

text \<open>
  The values the auth code puts into dictionaries: \<open>None\<close>, a \<open>str\<close>, a number and a
  \<open>datetime\<close> (its POSIX timestamp in seconds).  A \<open>dict\<close> is an association list;
  \<open>d.get(k)\<close> is \<open>dict_get\<close> and \<open>d[k]\<close>, which raises \<open>KeyError\<close>, is \<open>dict_item\<close>.
\<close>

datatype pyval = PNone | PStr string | PNum rat | PDate rat

type_synonym pydict = "(string \<times> pyval) list"

datatype exn =
    ValueError string
  | TypeError string
  | KeyError string
  | ValidationError string
  | JWTError string
  | DuplicateKeyError string
  | OtherError string

fun str_exn :: "exn \<Rightarrow> string" where
  "str_exn (ValueError m) = m"
| "str_exn (TypeError m) = m"
| "str_exn (KeyError m) = m"
| "str_exn (ValidationError m) = m"
| "str_exn (JWTError m) = m"
| "str_exn (DuplicateKeyError m) = m"
| "str_exn (OtherError m) = m"

text \<open>
  What leaves a route handler when it does not return: an \<open>HTTPException\<close> with its
  status code and detail, or any other exception.  The two handlers registered in
  \<^verbatim>\<open>main.py\<close> turn the first into a response with that status code and the second
  into a 500.
\<close>

datatype raised = HTTPException nat string | Unhandled exn

fun status_code :: "raised + 'a \<Rightarrow> nat" where
  "status_code (Inr _) = 200"
| "status_code (Inl (HTTPException c _)) = c"
| "status_code (Inl (Unhandled _)) = 500"

definition dict_get :: "pydict \<Rightarrow> string \<Rightarrow> pyval" where
  "dict_get d k = (case map_of d k of None \<Rightarrow> PNone | Some v \<Rightarrow> v)"

definition dict_item :: "pydict \<Rightarrow> string \<Rightarrow> exn + pyval" where
  "dict_item d k = (case map_of d k of None \<Rightarrow> Inl (KeyError k) | Some v \<Rightarrow> Inr v)"

subsection \<open>Settings, the state of the process and the driver\<close>

record settings =
  mongodb_uri :: string
  jwt_secret_key :: string
  jwt_algorithm :: string
  jwt_expiry_minutes :: int
  unsplash_access_key :: string

record audit_entry =
  ae_user_id :: pyval
  ae_action :: string
  ae_data :: "(string \<times> string) list"
  ae_timestamp :: rat

record keyword_data =
  primary_keywords :: "string list"
  secondary_keywords :: "string list"
  keyword_density :: "(string \<times> rat) list"

record analysis_data =
  summary :: string
  intent :: string
  topics :: "string list"
  content_length :: int

text \<open>
  \<open>BlogContent\<close> of \<^verbatim>\<open>app.models\<close> (not among the sources): the title the code reads,
  the two image fields it assigns, and the rest of the post-processed blog kept as it is.
\<close>

record blog_content =
  bc_title :: string
  bc_rest :: string
  featured_image :: "string option"
  additional_images :: "string list"

record blog_doc =
  bd_user_id :: string
  bd_url :: string
  bd_title :: string
  bd_generated_at :: rat
  bd_blog :: blog_content
  bd_keywords :: keyword_data
  bd_analysis :: analysis_data
  bd_word_count :: int
  bd_processing_time :: rat

text \<open>
  A stored document is its \<open>_id\<close> (the \<open>ObjectId\<close> as \<open>str\<close> prints it) and its
  other fields.  The clock \<open>now\<close> is what \<open>time.time()\<close> and \<open>datetime.utcnow()\<close> read.
\<close>

record world =
  users :: "(string \<times> pydict) list"
  history :: "audit_entry list"
  blogs :: "(string \<times> blog_doc) list"
  now :: rat

text \<open>
  The calls that leave the process.  For one request the environment fixes how long
  each call takes, whether a driver call raises, and the \<open>_id\<close> the server gives an
  inserted document.  The clock moves only during these calls.  A driver call that
  raises leaves its collection as it was.
\<close>

datatype call =
    UsersFindOne | UsersInsertOne | HistoryInsertOne | BlogsInsertOne | BlogsFindOne
  | Validate | Extract | Clean | Keywords | Topics | Prompt | Generate
  | FeaturedImage | FetchImages | SeoProcess

record env =
  cost :: "call \<Rightarrow> rat"
  fails :: "call \<Rightarrow> exn option"
  inserted_id :: "call \<Rightarrow> string"

definition elapse :: "env \<Rightarrow> call \<Rightarrow> world \<Rightarrow> world" where
  "elapse e c w = w\<lparr>now := now w + cost e c\<rparr>"

definition users_find_one ::
  "env \<Rightarrow> world \<Rightarrow> string \<Rightarrow> (exn + (string \<times> pydict) option) \<times> world" where
  "users_find_one e w email =
     (let w' = elapse e UsersFindOne w in
      case fails e UsersFindOne of
        Some x \<Rightarrow> (Inl x, w')
      | None \<Rightarrow> (Inr (find (\<lambda>u. map_of (snd u) ''email'' = Some (PStr email)) (users w')), w'))"

definition users_insert_one :: "env \<Rightarrow> world \<Rightarrow> pydict \<Rightarrow> (exn + string) \<times> world" where
  "users_insert_one e w d =
     (let w' = elapse e UsersInsertOne w in
      case fails e UsersInsertOne of
        Some x \<Rightarrow> (Inl x, w')
      | None \<Rightarrow> (Inr (inserted_id e UsersInsertOne),
                 w'\<lparr>users := users w' @ [(inserted_id e UsersInsertOne, d)]\<rparr>))"

definition history_insert_one :: "env \<Rightarrow> world \<Rightarrow> audit_entry \<Rightarrow> (exn + unit) \<times> world" where
  "history_insert_one e w a =
     (let w' = elapse e HistoryInsertOne w in
      case fails e HistoryInsertOne of
        Some x \<Rightarrow> (Inl x, w')
      | None \<Rightarrow> (Inr (), w'\<lparr>history := history w' @ [a]\<rparr>))"

definition blogs_insert_one :: "env \<Rightarrow> world \<Rightarrow> blog_doc \<Rightarrow> (exn + string) \<times> world" where
  "blogs_insert_one e w d =
     (let w' = elapse e BlogsInsertOne w in
      case fails e BlogsInsertOne of
        Some x \<Rightarrow> (Inl x, w')
      | None \<Rightarrow> (Inr (inserted_id e BlogsInsertOne),
                 w'\<lparr>blogs := blogs w' @ [(inserted_id e BlogsInsertOne, d)]\<rparr>))"

definition blogs_find_one ::
  "env \<Rightarrow> world \<Rightarrow> string \<Rightarrow> string \<Rightarrow> (exn + (string \<times> blog_doc) option) \<times> world" where
  "blogs_find_one e w oid uid =
     (let w' = elapse e BlogsFindOne w in
      case fails e BlogsFindOne of
        Some x \<Rightarrow> (Inl x, w')
      | None \<Rightarrow> (Inr (find (\<lambda>d. fst d = oid \<and> bd_user_id (snd d) = uid) (blogs w')), w'))"

subsection \<open>auth.py: tokens\<close>

record UserCreate =
  uc_email :: string
  uc_password :: string
  uc_name :: "string option"

record UserLogin =
  ul_email :: string
  ul_password :: string

record UserResponse =
  ur_id :: string
  ur_email :: string
  ur_name :: "string option"
  ur_created_at :: rat

record Token =
  access_token :: string
  token_type :: string
  expires_in :: int

record TokenData =
  td_user_id :: string
  td_email :: string
  td_exp :: rat

text \<open>
  python-jose: \<open>jwt.encode(claims, key, algorithm)\<close> and
  \<open>jwt.decode(token, key, algorithms)\<close>, which also reads the clock to check \<open>exp\<close>.
\<close>

record jose =
  jwt_encode :: "pydict \<Rightarrow> string \<Rightarrow> string \<Rightarrow> exn + string"
  jwt_decode :: "string \<Rightarrow> string \<Rightarrow> string list \<Rightarrow> rat \<Rightarrow> exn + pydict"

definition verify_password :: "string \<Rightarrow> pyval \<Rightarrow> bool" where
  "verify_password plain_password stored_value \<longleftrightarrow> PStr plain_password = stored_value"

definition hash_password :: "string \<Rightarrow> string" where
  "hash_password password = password"

text \<open>\<open>expires_delta\<close> is in seconds; the default is \<open>jwt_expiry_minutes\<close> minutes.\<close>

definition create_access_token ::
  "settings \<Rightarrow> jose \<Rightarrow> world \<Rightarrow> pyval \<Rightarrow> pyval \<Rightarrow> rat option \<Rightarrow> exn + string" where
  "create_access_token cfg jw w user_id email expires_delta =
     (let delta = (case expires_delta of
                     None \<Rightarrow> of_int (jwt_expiry_minutes cfg) * 60
                   | Some d \<Rightarrow> d);
          expire = now w + delta;
          to_encode = [(''sub'', user_id), (''email'', email), (''exp'', PDate expire)]
      in jwt_encode jw to_encode (jwt_secret_key cfg) (jwt_algorithm cfg))"

text \<open>
  \<open>datetime.fromtimestamp\<close>: a \<open>TypeError\<close> on anything but a number, and an error on a
  number outside the years 1 to 9999 (the exact limits depend on the platform and the
  time zone).
\<close>

definition fromtimestamp :: "pyval \<Rightarrow> exn + rat" where
  "fromtimestamp v =
     (case v of
        PNum t \<Rightarrow> if - 62135596800 \<le> t \<and> t < 253402300800 then Inr t
                  else Inl (ValueError ''year is out of range'')
      | _ \<Rightarrow> Inl (TypeError ''an integer is required''))"

text \<open>
  The constructor \<open>TokenData(user_id=..., email=..., exp=...)\<close>: pydantic (version 2, as
  \<^verbatim>\<open>config.py\<close> imports \<open>pydantic_settings\<close>) refuses a value that is not a \<open>str\<close>.
\<close>

definition mk_TokenData :: "pyval \<Rightarrow> pyval \<Rightarrow> rat \<Rightarrow> exn + TokenData" where
  "mk_TokenData user_id email expiry =
     (case (user_id, email) of
        (PStr u, PStr m) \<Rightarrow> Inr \<lparr>td_user_id = u, td_email = m, td_exp = expiry\<rparr>
      | _ \<Rightarrow> Inl (ValidationError ''Input should be a valid string''))"

text \<open>
  \<open>verify_token\<close>: \<open>Inr None\<close> is the return value \<open>None\<close>, \<open>Inl\<close> an exception that
  leaves the function.  Only a \<open>JWTError\<close> is caught.
\<close>

definition verify_token :: "settings \<Rightarrow> jose \<Rightarrow> world \<Rightarrow> string \<Rightarrow> exn + TokenData option" where
  "verify_token cfg jw w token =
     (case jwt_decode jw token (jwt_secret_key cfg) [jwt_algorithm cfg] (now w) of
        Inl (JWTError m) \<Rightarrow> Inr None
      | Inl x \<Rightarrow> Inl x
      | Inr payload \<Rightarrow>
          (let user_id = dict_get payload ''sub'';
               email = dict_get payload ''email''
           in case fromtimestamp (dict_get payload ''exp'') of
                Inl x \<Rightarrow> Inl x
              | Inr expiry \<Rightarrow>
                  if user_id = PNone \<or> email = PNone then Inr None
                  else (case mk_TokenData user_id email expiry of
                          Inl x \<Rightarrow> Inl x
                        | Inr td \<Rightarrow> Inr (Some td))))"

definition credentials_exception :: raised where
  "credentials_exception = HTTPException 401 ''Could not validate credentials''"

definition get_current_user :: "settings \<Rightarrow> jose \<Rightarrow> world \<Rightarrow> string \<Rightarrow> raised + TokenData" where
  "get_current_user cfg jw w credentials =
     (case verify_token cfg jw w credentials of
        Inl x \<Rightarrow> Inl (Unhandled x)
      | Inr None \<Rightarrow> Inl credentials_exception
      | Inr (Some token_data) \<Rightarrow> Inr token_data)"

subsection \<open>auth.py: users and the audit trail\<close>

definition opt_str :: "string option \<Rightarrow> pyval" where
  "opt_str s = (case s of None \<Rightarrow> PNone | Some n \<Rightarrow> PStr n)"

definition create_user :: "env \<Rightarrow> world \<Rightarrow> UserCreate \<Rightarrow> (raised + pydict) \<times> world" where
  "create_user e w user_data =
     (case users_find_one e w (uc_email user_data) of
        (Inl x, w1) \<Rightarrow> (Inl (Unhandled x), w1)
      | (Inr (Some existing), w1) \<Rightarrow>
          (Inl (HTTPException 400 ''Email already registered''), w1)
      | (Inr None, w1) \<Rightarrow>
          (let user_doc =
                 [(''email'', PStr (uc_email user_data)),
                  (''password_hash'', PStr (hash_password (uc_password user_data))),
                  (''name'', opt_str (uc_name user_data)),
                  (''created_at'', PDate (now w1)),
                  (''updated_at'', PDate (now w1))]
           in case users_insert_one e w1 user_doc of
                (Inl x, w2) \<Rightarrow> (Inl (Unhandled x), w2)
              | (Inr oid, w2) \<Rightarrow>
                  (Inr [(''id'', PStr oid),
                        (''email'', PStr (uc_email user_data)),
                        (''name'', opt_str (uc_name user_data)),
                        (''created_at'', PDate (now w1))], w2)))"

text \<open>
  \<open>authenticate_user\<close>: \<open>Inr None\<close> is the return value \<open>None\<close>.  The subscripts
  \<open>user["password_hash"]\<close>, \<open>user["email"]\<close> and \<open>user["created_at"]\<close> raise \<open>KeyError\<close> on
  a document without the field.
\<close>

definition authenticate_user ::
  "env \<Rightarrow> world \<Rightarrow> string \<Rightarrow> string \<Rightarrow> (exn + pydict option) \<times> world" where
  "authenticate_user e w email password =
     (case users_find_one e w email of
        (Inl x, w1) \<Rightarrow> (Inl x, w1)
      | (Inr None, w1) \<Rightarrow> (Inr None, w1)
      | (Inr (Some user), w1) \<Rightarrow>
          (case dict_item (snd user) ''password_hash'' of
             Inl x \<Rightarrow> (Inl x, w1)
           | Inr stored \<Rightarrow>
               if \<not> verify_password password stored then (Inr None, w1)
               else (case dict_item (snd user) ''email'' of
                       Inl x \<Rightarrow> (Inl x, w1)
                     | Inr em \<Rightarrow>
                         (case dict_item (snd user) ''created_at'' of
                            Inl x \<Rightarrow> (Inl x, w1)
                          | Inr cr \<Rightarrow>
                              (Inr (Some [(''id'', PStr (fst user)),
                                          (''email'', em),
                                          (''name'', dict_get (snd user) ''name''),
                                          (''created_at'', cr)]), w1)))))"

text \<open>\<open>data or {}\<close>: no data is the empty dictionary.  The timestamp is read before the insert.\<close>

definition log_user_action ::
  "env \<Rightarrow> world \<Rightarrow> pyval \<Rightarrow> string \<Rightarrow> (string \<times> string) list option \<Rightarrow> (exn + unit) \<times> world" where
  "log_user_action e w user_id action data =
     history_insert_one e w
       \<lparr>ae_user_id = user_id, ae_action = action,
        ae_data = (case data of None \<Rightarrow> [] | Some d \<Rightarrow> d),
        ae_timestamp = now w\<rparr>"

subsection \<open>routes/auth.py\<close>

text \<open>
  The constructor \<open>UserResponse(id=..., email=..., name=..., created_at=...)\<close>: pydantic
  refuses a field of the wrong type (its conversion of a number or a string to a
  \<open>datetime\<close> is left out: \<open>created_at\<close> is a \<open>datetime\<close> wherever the code builds it).
\<close>

definition mk_UserResponse :: "pyval \<Rightarrow> pyval \<Rightarrow> pyval \<Rightarrow> pyval \<Rightarrow> exn + UserResponse" where
  "mk_UserResponse i em n c =
     (case (i, em, c) of
        (PStr i', PStr em', PDate c') \<Rightarrow>
          (case n of
             PNone \<Rightarrow> Inr \<lparr>ur_id = i', ur_email = em', ur_name = None, ur_created_at = c'\<rparr>
           | PStr n' \<Rightarrow> Inr \<lparr>ur_id = i', ur_email = em', ur_name = Some n', ur_created_at = c'\<rparr>
           | _ \<Rightarrow> Inl (ValidationError ''Input should be a valid string''))
      | _ \<Rightarrow> Inl (ValidationError ''validation error for UserResponse''))"

definition register :: "settings \<Rightarrow> env \<Rightarrow> world \<Rightarrow> UserCreate \<Rightarrow> (raised + UserResponse) \<times> world" where
  "register cfg e w user_data =
     (if mongodb_uri cfg = []
      then (Inl (HTTPException 503
                   ''User registration not available (database not configured)''), w)
      else case create_user e w user_data of
             (Inl r, w1) \<Rightarrow> (Inl r, w1)
           | (Inr user, w1) \<Rightarrow>
               (case dict_item user ''id'' of
                  Inl x \<Rightarrow> (Inl (Unhandled x), w1)
                | Inr uid \<Rightarrow>
                    (case log_user_action e w1 uid ''register'' None of
                       (Inl x, w2) \<Rightarrow> (Inl (Unhandled x), w2)
                     | (Inr _, w2) \<Rightarrow>
                         (case dict_item user ''email'' of
                            Inl x \<Rightarrow> (Inl (Unhandled x), w2)
                          | Inr em \<Rightarrow>
                              (case dict_item user ''created_at'' of
                                 Inl x \<Rightarrow> (Inl (Unhandled x), w2)
                               | Inr cr \<Rightarrow>
                                   (case mk_UserResponse uid em (dict_get user ''name'') cr of
                                      Inl x \<Rightarrow> (Inl (Unhandled x), w2)
                                    | Inr r \<Rightarrow> (Inr r, w2)))))))"

definition login :: "settings \<Rightarrow> jose \<Rightarrow> env \<Rightarrow> world \<Rightarrow> UserLogin \<Rightarrow> (raised + Token) \<times> world" where
  "login cfg jw e w credentials =
     (if mongodb_uri cfg = []
      then (Inl (HTTPException 503
                   ''User authentication not available (database not configured)''), w)
      else case authenticate_user e w (ul_email credentials) (ul_password credentials) of
             (Inl x, w1) \<Rightarrow> (Inl (Unhandled x), w1)
           | (Inr None, w1) \<Rightarrow> (Inl (HTTPException 401 ''Invalid email or password''), w1)
           | (Inr (Some user), w1) \<Rightarrow>
               (case dict_item user ''id'' of
                  Inl x \<Rightarrow> (Inl (Unhandled x), w1)
                | Inr uid \<Rightarrow>
                    (case dict_item user ''email'' of
                       Inl x \<Rightarrow> (Inl (Unhandled x), w1)
                     | Inr em \<Rightarrow>
                         (case create_access_token cfg jw w1 uid em
                                 (Some (of_int (jwt_expiry_minutes cfg) * 60)) of
                            Inl x \<Rightarrow> (Inl (Unhandled x), w1)
                          | Inr tok \<Rightarrow>
                              (case log_user_action e w1 uid ''login'' None of
                                 (Inl x, w2) \<Rightarrow> (Inl (Unhandled x), w2)
                               | (Inr _, w2) \<Rightarrow>
                                   (Inr \<lparr>access_token = tok, token_type = ''bearer'',
                                         expires_in = jwt_expiry_minutes cfg * 60\<rparr>, w2))))))"

definition logout :: "env \<Rightarrow> world \<Rightarrow> TokenData \<Rightarrow> (raised + string) \<times> world" where
  "logout e w current_user =
     (case log_user_action e w (PStr (td_user_id current_user)) ''logout'' None of
        (Inl x, w1) \<Rightarrow> (Inl (Unhandled x), w1)
      | (Inr _, w1) \<Rightarrow> (Inr ''Logged out successfully'', w1))"

subsection \<open>main.py: the pipeline\<close>

record BlogGenerationRequest =
  req_url :: string
  req_tone :: string
  req_word_count :: int

record content_data =
  cd_text :: string
  cd_title :: "string option"

record prompt_args =
  pa_url :: string
  pa_title :: string
  pa_summary :: string
  pa_intent :: string
  pa_primary_keywords :: "string list"
  pa_secondary_keywords :: "string list"
  pa_topics :: "string list"
  pa_tone :: string
  pa_word_count :: int

record seo_analysis =
  sa_word_count :: int
  sa_seo_score :: int

record processed_result =
  pr_blog :: blog_content
  pr_seo_analysis :: seo_analysis

record BlogGenerationResponse =
  resp_success :: bool
  resp_blog :: blog_content
  resp_keywords :: keyword_data
  resp_analysis :: analysis_data
  resp_word_count :: int
  resp_processing_time :: rat
  resp_generated_at :: "rat option"

text \<open>
  The collaborators of \<^verbatim>\<open>app.core\<close> (not among the sources), each a function that
  returns or raises.  The results are typed as the code reads them
  (\<open>content_data['text']\<close>, \<open>keyword_data['primary_keywords']\<close>, ...), and the pydantic
  models built from them are taken to accept them.  \<open>cd_title = None\<close> is a
  \<open>content_data\<close> without the key \<open>title\<close>.  An image is kept as one string; a falsy
  \<open>featured_image_data\<close> is \<open>None\<close>, and an \<open>ImageData\<close> that refuses its input counts
  as the call raising, since both end in the same \<open>except\<close> clause.
\<close>

record stages =
  validator_validate :: "string \<Rightarrow> exn + bool \<times> string"
  extractor_extract :: "string \<Rightarrow> exn + content_data"
  cleaner_clean :: "string \<Rightarrow> exn + string"
  keyword_extract_and_categorize :: "string \<Rightarrow> exn + keyword_data"
  topic_analyze :: "string \<Rightarrow> string \<Rightarrow> string list \<Rightarrow> exn + analysis_data"
  prompt_build_prompt :: "prompt_args \<Rightarrow> exn + string"
  generator_generate :: "string \<Rightarrow> exn + string"
  image_get_featured_image :: "string list \<Rightarrow> exn + string option"
  image_fetch_images :: "string list \<Rightarrow> nat \<Rightarrow> exn + string list"
  seo_process :: "string \<Rightarrow> string list \<Rightarrow> exn + processed_result"

text \<open>
  \<open>round(x, 2)\<close>: the nearest multiple of 1/100, a tie going to the even one.  Time is a
  rational number here; Python rounds the exact value of the float in the same way and
  returns the float nearest to the result.
\<close>

definition py_round2 :: "rat \<Rightarrow> rat" where
  "py_round2 x =
     (let y = x * 100; f = \<lfloor>y\<rfloor>; d = y - of_int f
      in of_int (if d < 1 / 2 then f
                 else if 1 / 2 < d then f + 1
                 else if even f then f else f + 1) / 100)"

definition get_title :: "content_data \<Rightarrow> string" where
  "get_title c = (case cd_title c of None \<Rightarrow> [] | Some t \<Rightarrow> t)"

record analysis_ctx =
  ctx_content :: content_data
  ctx_keywords :: keyword_data
  ctx_analysis :: analysis_data
  ctx_prompt :: string

text \<open>Steps 1 to 6 of \<open>generate_blog\<close>, up to the prompt.\<close>

definition run_analysis ::
  "env \<Rightarrow> stages \<Rightarrow> BlogGenerationRequest \<Rightarrow> world \<Rightarrow> (raised + analysis_ctx) \<times> world" where
  "run_analysis e st request w =
     (let url = req_url request; w1 = elapse e Validate w in
      case validator_validate st url of
        Inl x \<Rightarrow> (Inl (Unhandled x), w1)
      | Inr (is_valid, error_msg) \<Rightarrow>
          if \<not> is_valid
          then (Inl (HTTPException 400 (''URL validation failed: '' @ error_msg)), w1)
          else
            (let w2 = elapse e Extract w1 in
             case extractor_extract st url of
               Inl (ValueError m) \<Rightarrow>
                 (Inl (HTTPException 400 (''Content extraction failed: '' @ m)), w2)
             | Inl x \<Rightarrow> (Inl (Unhandled x), w2)
             | Inr content \<Rightarrow>
                 (let w3 = elapse e Clean w2 in
                  case cleaner_clean st (cd_text content) of
                    Inl x \<Rightarrow> (Inl (Unhandled x), w3)
                  | Inr cleaned_text \<Rightarrow>
                      if cleaned_text = []
                      then (Inl (HTTPException 400
                                   ''No usable content found after cleaning''), w3)
                      else
                        (let w4 = elapse e Keywords w3 in
                         case keyword_extract_and_categorize st cleaned_text of
                           Inl x \<Rightarrow> (Inl (Unhandled x), w4)
                         | Inr kd \<Rightarrow>
                             (let w5 = elapse e Topics w4 in
                              case topic_analyze st cleaned_text (get_title content)
                                     (primary_keywords kd) of
                                Inl x \<Rightarrow> (Inl (Unhandled x), w5)
                              | Inr ad \<Rightarrow>
                                  (let w6 = elapse e Prompt w5 in
                                   case prompt_build_prompt st
                                          \<lparr>pa_url = url, pa_title = get_title content,
                                           pa_summary = summary ad, pa_intent = intent ad,
                                           pa_primary_keywords = primary_keywords kd,
                                           pa_secondary_keywords = secondary_keywords kd,
                                           pa_topics = topics ad,
                                           pa_tone = req_tone request,
                                           pa_word_count = req_word_count request\<rparr> of
                                     Inl x \<Rightarrow> (Inl (Unhandled x), w6)
                                   | Inr prompt \<Rightarrow>
                                       (Inr \<lparr>ctx_content = content, ctx_keywords = kd,
                                             ctx_analysis = ad, ctx_prompt = prompt\<rparr>,
                                        w6)))))))"

text \<open>
  Step 8, the images.  \<open>featured_image\<close> is assigned as soon as the first call has
  returned; an exception from either call ends the step and keeps what is assigned.
\<close>

definition fetch_image_stage ::
  "settings \<Rightarrow> env \<Rightarrow> stages \<Rightarrow> keyword_data \<Rightarrow> world
     \<Rightarrow> (string option \<times> string list) \<times> world" where
  "fetch_image_stage cfg e st kd w =
     (if unsplash_access_key cfg = [] then ((None, []), w)
      else
        (let w1 = elapse e FeaturedImage w in
         case image_get_featured_image st (primary_keywords kd) of
           Inl x \<Rightarrow> ((None, []), w1)
         | Inr featured \<Rightarrow>
             (let w2 = elapse e FetchImages w1 in
              case image_fetch_images st (primary_keywords kd) 3 of
                Inl x \<Rightarrow> ((featured, []), w2)
              | Inr imgs \<Rightarrow> ((featured, imgs), w2))))"

text \<open>
  From the processing time to the \<open>return\<close>: the clock is read, the response and the
  document are built, the document is inserted and the audit entry written.
\<close>

definition persist_and_audit ::
  "env \<Rightarrow> BlogGenerationRequest \<Rightarrow> TokenData \<Rightarrow> rat \<Rightarrow> analysis_ctx \<Rightarrow> processed_result
     \<Rightarrow> string option \<Rightarrow> string list \<Rightarrow> world \<Rightarrow> (raised + BlogGenerationResponse) \<times> world" where
  "persist_and_audit e request current_user start_time ctx processed featured additional w =
     (let url = req_url request;
          processing_time = now w - start_time;
          blog_content = (pr_blog processed)
                           \<lparr>featured_image := featured, additional_images := additional\<rparr>;
          word_count_value = sa_word_count (pr_seo_analysis processed);
          processing_time_value = py_round2 processing_time;
          response = \<lparr>resp_success = True, resp_blog = blog_content,
                      resp_keywords = ctx_keywords ctx,
                      resp_analysis = ctx_analysis ctx,
                      resp_word_count = word_count_value,
                      resp_processing_time = processing_time_value,
                      resp_generated_at = None\<rparr>;
          blog_doc = \<lparr>bd_user_id = td_user_id current_user, bd_url = url,
                      bd_title = bc_title blog_content, bd_generated_at = now w,
                      bd_blog = blog_content, bd_keywords = ctx_keywords ctx,
                      bd_analysis = ctx_analysis ctx, bd_word_count = word_count_value,
                      bd_processing_time = processing_time_value\<rparr>
      in case blogs_insert_one e w blog_doc of
           (Inl x, w1) \<Rightarrow> (Inl (Unhandled x), w1)
         | (Inr blog_id, w1) \<Rightarrow>
             (case log_user_action e w1 (PStr (td_user_id current_user)) ''generate_blog''
                     (Some [(''url'', url), (''title'', bc_title blog_content),
                            (''blog_id'', blog_id)]) of
                (Inl x, w2) \<Rightarrow> (Inl (Unhandled x), w2)
              | (Inr _, w2) \<Rightarrow> (Inr response, w2)))"

text \<open>The body of the \<open>try\<close> block of \<open>generate_blog\<close>.\<close>

definition generate_blog_body ::
  "settings \<Rightarrow> env \<Rightarrow> stages \<Rightarrow> BlogGenerationRequest \<Rightarrow> TokenData \<Rightarrow> world
     \<Rightarrow> (raised + BlogGenerationResponse) \<times> world" where
  "generate_blog_body cfg e st request current_user w =
     (let start_time = now w in
      case run_analysis e st request w of
        (Inl r, w1) \<Rightarrow> (Inl r, w1)
      | (Inr ctx, w1) \<Rightarrow>
          (let w2 = elapse e Generate w1 in
           case generator_generate st (ctx_prompt ctx) of
             Inl x \<Rightarrow>
               (Inl (HTTPException 500 (''Blog generation failed: '' @ str_exn x)), w2)
           | Inr blog_data \<Rightarrow>
               (case fetch_image_stage cfg e st (ctx_keywords ctx) w2 of
                  ((featured, additional), w3) \<Rightarrow>
                    (let w4 = elapse e SeoProcess w3;
                         all_keywords = primary_keywords (ctx_keywords ctx)
                                        @ secondary_keywords (ctx_keywords ctx)
                     in case seo_process st blog_data all_keywords of
                          Inl x \<Rightarrow> (Inl (Unhandled x), w4)
                        | Inr processed \<Rightarrow>
                            persist_and_audit e request current_user start_time ctx
                              processed featured additional w4))))"

text \<open>
  The two \<open>except\<close> clauses of \<open>generate_blog\<close>: an \<open>HTTPException\<close> is raised again,
  any other exception becomes a 500.
\<close>

definition generate_blog ::
  "settings \<Rightarrow> env \<Rightarrow> stages \<Rightarrow> BlogGenerationRequest \<Rightarrow> TokenData \<Rightarrow> world
     \<Rightarrow> (raised + BlogGenerationResponse) \<times> world" where
  "generate_blog cfg e st request current_user w =
     (case generate_blog_body cfg e st request current_user w of
        (Inl (Unhandled x), w') \<Rightarrow>
          (Inl (HTTPException 500 (''Internal server error: '' @ str_exn x)), w')
      | other \<Rightarrow> other)"

text \<open>
  \<open>get_blog\<close>.  \<open>ObjectId\<close> is \<open>bson.ObjectId\<close> on a \<open>str\<close>: \<open>None\<close> when it raises,
  else the identifier as \<open>str\<close> prints it.
\<close>

definition get_blog ::
  "(string \<Rightarrow> string option) \<Rightarrow> env \<Rightarrow> world \<Rightarrow> string \<Rightarrow> TokenData
     \<Rightarrow> (raised + BlogGenerationResponse) \<times> world" where
  "get_blog ObjectId e w blog_id current_user =
     (case ObjectId blog_id of
        None \<Rightarrow> (Inl (HTTPException 400 ''Invalid blog ID''), w)
      | Some oid \<Rightarrow>
          (case blogs_find_one e w oid (td_user_id current_user) of
             (Inl x, w1) \<Rightarrow> (Inl (Unhandled x), w1)
           | (Inr None, w1) \<Rightarrow> (Inl (HTTPException 404 ''Blog not found''), w1)
           | (Inr (Some d), w1) \<Rightarrow>
               (Inr \<lparr>resp_success = True, resp_blog = bd_blog (snd d),
                     resp_keywords = bd_keywords (snd d),
                     resp_analysis = bd_analysis (snd d),
                     resp_word_count = bd_word_count (snd d),
                     resp_processing_time = bd_processing_time (snd d),
                     resp_generated_at = Some (bd_generated_at (snd d))\<rparr>, w1)))"

subsection \<open>The bearer scheme\<close>

text \<open>
  Modelled from the spec: \<open>security = HTTPBearer()\<close> is an object of
  \<open>fastapi.security\<close>, which is not among the sources.  The specification has the
  credential sent as \<open>Authorization: Bearer <token>\<close> and the request fail with
  \<open>Unauthorized\<close> when the header is absent or malformed.
\<close>

definition security :: "string option \<Rightarrow> raised + string" where
  "security authorization =
     (case authorization of
        None \<Rightarrow> Inl (HTTPException 401 ''Not authenticated'')
      | Some h \<Rightarrow>
          if take 7 h = ''Bearer '' \<and> drop 7 h \<noteq> [] then Inr (drop 7 h)
          else Inl (HTTPException 401 ''Not authenticated''))"

text \<open>
  A route that declares \<open>current_user: TokenData = Depends(get_current_user)\<close>: the
  dependencies run first, and the handler runs only with the identity they return.
\<close>

definition protected_route ::
  "settings \<Rightarrow> jose \<Rightarrow> (TokenData \<Rightarrow> world \<Rightarrow> (raised + 'a) \<times> world) \<Rightarrow> string option \<Rightarrow> world
     \<Rightarrow> (raised + 'a) \<times> world" where
  "protected_route cfg jw handler authorization w =
     (case security authorization of
        Inl r \<Rightarrow> (Inl r, w)
      | Inr credentials \<Rightarrow>
          (case get_current_user cfg jw w credentials of
             Inl r \<Rightarrow> (Inl r, w)
           | Inr current_user \<Rightarrow> handler current_user w))"

subsection \<open>A concrete deployment\<close>

text \<open>
  One configuration, one state with a registered user and a stored blog, and
  collaborators that all succeed; the theorems below are instantiated on them.
\<close>

definition demo_cfg :: settings where
  "demo_cfg = \<lparr>mongodb_uri = ''mongodb+srv://cluster0.mongodb.net'',
               jwt_secret_key = ''change-this-in-production-use-secrets-manager'',
               jwt_algorithm = ''HS256'', jwt_expiry_minutes = 60,
               unsplash_access_key = ''unsplash-key''\<rparr>"

definition demo_blog :: blog_doc where
  "demo_blog =
     \<lparr>bd_user_id = ''65a1b2c3d4e5f60718293a4b'', bd_url = ''https://example.com'',
      bd_title = ''Example'', bd_generated_at = 950,
      bd_blog = \<lparr>bc_title = ''Example'', bc_rest = ''body'',
                 featured_image = None, additional_images = []\<rparr>,
      bd_keywords = \<lparr>primary_keywords = [''example''], secondary_keywords = [],
                     keyword_density = []\<rparr>,
      bd_analysis = \<lparr>summary = ''s'', intent = ''informational'', topics = [''t''],
                     content_length = 4\<rparr>,
      bd_word_count = 1, bd_processing_time = 1\<rparr>"

definition demo_world :: world where
  "demo_world =
     \<lparr>users = [(''65a1b2c3d4e5f60718293a4b'',
                [(''email'', PStr ''u1@example.com''), (''password_hash'', PStr ''pw1''),
                 (''name'', PNone), (''created_at'', PDate 900),
                 (''updated_at'', PDate 900)])],
      history = [],
      blogs = [(''65a1b2c3d4e5f60718293a4c'', demo_blog)],
      now = 1000\<rparr>"

definition demo_env :: env where
  "demo_env =
     \<lparr>cost = (\<lambda>c. if c = BlogsInsertOne then 5 else if c = HistoryInsertOne then 2
                    else 1 / 10),
      fails = (\<lambda>c. None),
      inserted_id = (\<lambda>c. ''65a1b2c3d4e5f60718293a4d'')\<rparr>"

definition audit_down :: env where
  "audit_down =
     demo_env\<lparr>fails := (\<lambda>c. if c = HistoryInsertOne
                               then Some (OtherError ''connection closed'') else None)\<rparr>"

definition insert_race :: env where
  "insert_race =
     demo_env\<lparr>fails := (\<lambda>c. if c = UsersInsertOne
                               then Some (DuplicateKeyError ''E11000 duplicate key error'')
                               else None)\<rparr>"

definition demo_user :: TokenData where
  "demo_user = \<lparr>td_user_id = ''65a1b2c3d4e5f60718293a4b'', td_email = ''u1@example.com'',
                td_exp = 4600\<rparr>"

definition other_user :: TokenData where
  "other_user = \<lparr>td_user_id = ''65a1b2c3d4e5f60718293a4e'', td_email = ''u2@example.com'',
                 td_exp = 4600\<rparr>"

text \<open>
  A decoder that accepts two tokens signed with the configured key: one with the three
  claims, one without \<open>exp\<close> (python-jose checks \<open>exp\<close> only when the claim is present).
\<close>

definition demo_jose :: jose where
  "demo_jose =
     \<lparr>jwt_encode = (\<lambda>claims key alg. Inr ''signed''),
      jwt_decode = (\<lambda>token key algs t.
         if token = ''signed'' \<and> t < 4600
         then Inr [(''sub'', PStr ''65a1b2c3d4e5f60718293a4b''),
                   (''email'', PStr ''u1@example.com''), (''exp'', PNum 4600)]
         else if token = ''signed-without-exp''
         then Inr [(''sub'', PStr ''65a1b2c3d4e5f60718293a4b''),
                   (''email'', PStr ''u1@example.com'')]
         else Inl (JWTError ''Signature verification failed.''))\<rparr>"

definition demo_ObjectId :: "string \<Rightarrow> string option" where
  "demo_ObjectId s =
     (if length s = 24 \<and> list_all (\<lambda>c. c \<in> set ''0123456789abcdef'') s then Some s
      else None)"

definition demo_request :: BlogGenerationRequest where
  "demo_request = \<lparr>req_url = ''https://example.com'', req_tone = ''informative'',
                   req_word_count = 800\<rparr>"

definition demo_stages :: stages where
  "demo_stages =
     \<lparr>validator_validate = (\<lambda>url. Inr (True, [])),
      extractor_extract = (\<lambda>url. Inr \<lparr>cd_text = ''raw text'', cd_title = Some ''Example''\<rparr>),
      cleaner_clean = (\<lambda>t. Inr ''text''),
      keyword_extract_and_categorize =
        (\<lambda>t. Inr \<lparr>primary_keywords = [''example''], secondary_keywords = [''domain''],
                   keyword_density = []\<rparr>),
      topic_analyze =
        (\<lambda>t title kws. Inr \<lparr>summary = ''s'', intent = ''informational'', topics = [''t''],
                             content_length = 4\<rparr>),
      prompt_build_prompt = (\<lambda>a. Inr ''prompt''),
      generator_generate = (\<lambda>p. Inr ''draft''),
      image_get_featured_image = (\<lambda>kws. Inr (Some ''image-1'')),
      image_fetch_images = (\<lambda>kws n. Inr [''image-2'', ''image-3'']),
      seo_process =
        (\<lambda>b kws. Inr \<lparr>pr_blog = \<lparr>bc_title = ''Example'', bc_rest = b,
                                    featured_image = None, additional_images = []\<rparr>,
                        pr_seo_analysis = \<lparr>sa_word_count = 1, sa_seo_score = 80\<rparr>\<rparr>)\<rparr>"

definition generation_down :: stages where
  "generation_down =
     demo_stages\<lparr>generator_generate := (\<lambda>p. Inl (OtherError ''model unavailable''))\<rparr>"

definition images_half_down :: stages where
  "images_half_down =
     demo_stages\<lparr>image_fetch_images := (\<lambda>kws n. Inl (OtherError ''rate limit''))\<rparr>"

definition images_down :: stages where
  "images_down =
     demo_stages\<lparr>image_get_featured_image := (\<lambda>kws. Inl (OtherError ''rate limit'')),
                 image_fetch_images := (\<lambda>kws n. Inl (OtherError ''rate limit''))\<rparr>"

definition demo_new_user :: UserCreate where
  "demo_new_user = \<lparr>uc_email = ''u2@example.com'', uc_password = ''pw2'',
                    uc_name = Some ''Una''\<rparr>"

definition demo_existing_user :: UserCreate where
  "demo_existing_user = \<lparr>uc_email = ''u1@example.com'', uc_password = ''other'',
                         uc_name = None\<rparr>"

section \<open>Properties\<close>

lemmas db_defs = users_find_one_def users_insert_one_def history_insert_one_def
  blogs_insert_one_def blogs_find_one_def elapse_def log_user_action_def

lemmas demo_defs = demo_cfg_def demo_world_def demo_env_def demo_jose_def demo_user_def
  demo_blog_def demo_request_def demo_stages_def demo_new_user_def demo_existing_user_def
  audit_down_def insert_race_def other_user_def

lemma find_Some_D: "find P xs = Some x \<Longrightarrow> x \<in> set xs \<and> P x"
  by (induction xs) (auto split: if_splits)

lemma find_None_iff2: "find P xs = None \<longleftrightarrow> (\<forall>x\<in>set xs. \<not> P x)"
  by (induction xs) auto

subsection \<open>Tokens\<close>

lemma verify_token_JWTError:
  "jwt_decode jw token (jwt_secret_key cfg) [jwt_algorithm cfg] (now w) = Inl (JWTError m)
   \<Longrightarrow> verify_token cfg jw w token = Inr None"
  by (simp add: verify_token_def)

text \<open>
  C4.  The claim has \<open>verify_token\<close> return its invalid result, and never raise, on a
  token without one of the claims \<open>sub\<close>, \<open>email\<close>, \<open>exp\<close>.  On a token that decodes
  to a payload without \<open>exp\<close> the code calls \<open>datetime.fromtimestamp(None)\<close> before it
  looks at the other claims: \<open>verify_token\<close> raises a \<open>TypeError\<close>, \<open>get_current_user\<close>
  lets it through, and the request ends as a 500, not as the 401 of an invalid token.
\<close>

theorem verify_token_missing_exp_raises:
  "jwt_decode jw token (jwt_secret_key cfg) [jwt_algorithm cfg] (now w) = Inr payload \<Longrightarrow>
   map_of payload ''exp'' = None \<Longrightarrow>
   verify_token cfg jw w token = Inl (TypeError ''an integer is required'')
   \<and> get_current_user cfg jw w token = Inl (Unhandled (TypeError ''an integer is required''))
   \<and> status_code (get_current_user cfg jw w token) = 500"
  by (simp add: verify_token_def get_current_user_def dict_get_def fromtimestamp_def)

text \<open>
  A token signed with the configured key whose payload has \<open>sub\<close> and \<open>email\<close> and no
  \<open>exp\<close>; a token that does not decode gives the invalid result, as the claim says.
\<close>

theorem verify_token_missing_exp_raises_witness:
  "jwt_decode demo_jose ''signed-without-exp'' (jwt_secret_key demo_cfg)
       [jwt_algorithm demo_cfg] (now demo_world)
     = Inr [(''sub'', PStr ''65a1b2c3d4e5f60718293a4b''), (''email'', PStr ''u1@example.com'')]
   \<and> verify_token demo_cfg demo_jose demo_world ''signed-without-exp''
     = Inl (TypeError ''an integer is required'')
   \<and> get_current_user demo_cfg demo_jose demo_world ''signed-without-exp''
     = Inl (Unhandled (TypeError ''an integer is required''))
   \<and> status_code (get_current_user demo_cfg demo_jose demo_world ''signed-without-exp'') = 500
   \<and> get_current_user demo_cfg demo_jose demo_world ''forged''
     = Inl (HTTPException 401 ''Could not validate credentials'')"
  using verify_token_missing_exp_raises [where jw = demo_jose and cfg = demo_cfg
      and w = demo_world and token = "''signed-without-exp''"
      and payload = "[(''sub'', PStr ''65a1b2c3d4e5f60718293a4b''),
                      (''email'', PStr ''u1@example.com'')]"]
  by (simp add: verify_token_def get_current_user_def credentials_exception_def demo_defs
        dict_get_def fromtimestamp_def)

lemma logout_world:
  "snd (logout e w u) =
     (if fails e HistoryInsertOne = None
      then w\<lparr>now := now w + cost e HistoryInsertOne,
             history := history w @ [\<lparr>ae_user_id = PStr (td_user_id u), ae_action = ''logout'',
                                      ae_data = [], ae_timestamp = now w\<rparr>]\<rparr>
      else w\<lparr>now := now w + cost e HistoryInsertOne\<rparr>)"
  by (auto simp: logout_def db_defs Let_def split: option.splits)

text \<open>
  C9.  A logout changes nothing that \<open>verify_token\<close> reads.  At every later instant
  \<open>t\<close> the verification of any token in the state the logout leaves gives what it
  gives in the state before the logout; right after the logout it gives what it gives
  once the time of the audit write has passed.  The logout leaves the users and the
  blogs as they were, and the history too but for the one \<open>logout\<close> entry it appends
  when the write succeeds.
\<close>

theorem logout_keeps_tokens_valid:
  "verify_token cfg jw ((snd (logout e w u))\<lparr>now := t\<rparr>) tok
     = verify_token cfg jw (w\<lparr>now := t\<rparr>) tok
   \<and> verify_token cfg jw (snd (logout e w u)) tok
     = verify_token cfg jw (elapse e HistoryInsertOne w) tok
   \<and> users (snd (logout e w u)) = users w
   \<and> blogs (snd (logout e w u)) = blogs w
   \<and> history (snd (logout e w u)) =
       (if fails e HistoryInsertOne = None
        then history w @ [\<lparr>ae_user_id = PStr (td_user_id u), ae_action = ''logout'',
                           ae_data = [], ae_timestamp = now w\<rparr>]
        else history w)"
  by (simp add: logout_world verify_token_def elapse_def)

text \<open>The token of the registered user verifies before the logout and after it.\<close>

theorem logout_keeps_tokens_valid_witness:
  "verify_token demo_cfg demo_jose demo_world ''signed'' = Inr (Some demo_user)
   \<and> fst (logout demo_env demo_world demo_user) = Inr ''Logged out successfully''
   \<and> verify_token demo_cfg demo_jose (snd (logout demo_env demo_world demo_user)) ''signed''
       = Inr (Some demo_user)"
  using logout_keeps_tokens_valid [where cfg = demo_cfg and jw = demo_jose and e = demo_env
      and w = demo_world and u = demo_user and t = 0 and tok = "''signed''"]
  by (simp add: verify_token_def logout_def db_defs demo_defs dict_get_def fromtimestamp_def
        mk_TokenData_def)

subsection \<open>Users\<close>

lemma login_token_claims:
  "fst (login cfg jw e w cr) = Inr tk \<Longrightarrow>
     token_type tk = ''bearer'' \<and> expires_in tk = jwt_expiry_minutes cfg * 60
     \<and> (\<exists>d\<in>set (users w).
           jwt_encode jw [(''sub'', PStr (fst d)), (''email'', PStr (ul_email cr)),
                          (''exp'', PDate (now w + cost e UsersFindOne
                                           + of_int (jwt_expiry_minutes cfg) * 60))]
             (jwt_secret_key cfg) (jwt_algorithm cfg) = Inr (access_token tk))"
proof -
  assume a: "fst (login cfg jw e w cr) = Inr tk"
  then obtain d where
    d: "find (\<lambda>u. map_of (snd u) ''email'' = Some (PStr (ul_email cr))) (users w) = Some d"
    by (auto simp: login_def authenticate_user_def db_defs Let_def
          split: option.splits if_splits)
  then have m: "d \<in> set (users w)"
    and p: "map_of (snd d) ''email'' = Some (PStr (ul_email cr))"
    by (auto dest: find_Some_D)
  from a d p have "token_type tk = ''bearer'' \<and> expires_in tk = jwt_expiry_minutes cfg * 60
     \<and> jwt_encode jw [(''sub'', PStr (fst d)), (''email'', PStr (ul_email cr)),
                          (''exp'', PDate (now w + cost e UsersFindOne
                                           + of_int (jwt_expiry_minutes cfg) * 60))]
             (jwt_secret_key cfg) (jwt_algorithm cfg) = Inr (access_token tk)"
    by (auto simp: login_def authenticate_user_def create_access_token_def db_defs Let_def
          dict_item_def dict_get_def
          split: option.splits if_splits sum.splits prod.splits)
  with m show ?thesis by blast
qed

text \<open>
  C10.  The dictionary a successful \<open>create_user\<close> or \<open>authenticate_user\<close> returns has
  the keys \<open>id\<close>, \<open>email\<close>, \<open>name\<close>, \<open>created_at\<close> and no other, so no \<open>password_hash\<close>;
  its values are the identifier, the email, the name and the creation time of the
  user.  The \<open>UserResponse\<close> of a successful \<open>register\<close> holds the same four values,
  and the token of a successful \<open>login\<close> encodes the claims \<open>sub\<close>, \<open>email\<close> and
  \<open>exp\<close> of a stored user.
\<close>

theorem returned_user_has_no_credential:
  "(fst (create_user e w ud) = Inr u \<longrightarrow>
      map fst u = [''id'', ''email'', ''name'', ''created_at'']
      \<and> ''password_hash'' \<notin> set (map fst u)
      \<and> map snd u = [PStr (inserted_id e UsersInsertOne), PStr (uc_email ud),
                      opt_str (uc_name ud), PDate (now w + cost e UsersFindOne)])
   \<and> (fst (authenticate_user e w em pw) = Inr (Some u') \<longrightarrow>
      map fst u' = [''id'', ''email'', ''name'', ''created_at'']
      \<and> ''password_hash'' \<notin> set (map fst u')
      \<and> (\<exists>d\<in>set (users w).
            map snd u' = [PStr (fst d), PStr em, dict_get (snd d) ''name'',
                          dict_get (snd d) ''created_at'']))
   \<and> (fst (register cfg e w ud) = Inr r \<longrightarrow>
      r = \<lparr>ur_id = inserted_id e UsersInsertOne, ur_email = uc_email ud,
           ur_name = uc_name ud, ur_created_at = now w + cost e UsersFindOne\<rparr>)
   \<and> (fst (login cfg jw e w cr) = Inr tk \<longrightarrow>
      token_type tk = ''bearer'' \<and> expires_in tk = jwt_expiry_minutes cfg * 60
      \<and> (\<exists>d\<in>set (users w).
            jwt_encode jw [(''sub'', PStr (fst d)), (''email'', PStr (ul_email cr)),
                           (''exp'', PDate (now w + cost e UsersFindOne
                                            + of_int (jwt_expiry_minutes cfg) * 60))]
              (jwt_secret_key cfg) (jwt_algorithm cfg) = Inr (access_token tk)))"
proof (intro conjI impI)
  assume a: "fst (create_user e w ud) = Inr u"
  then have u: "u = [(''id'', PStr (inserted_id e UsersInsertOne)),
                     (''email'', PStr (uc_email ud)), (''name'', opt_str (uc_name ud)),
                     (''created_at'', PDate (now w + cost e UsersFindOne))]"
    by (auto simp: create_user_def db_defs Let_def split: option.splits)
  show "map fst u = [''id'', ''email'', ''name'', ''created_at'']" by (simp add: u)
  show "''password_hash'' \<notin> set (map fst u)" by (simp add: u)
  show "map snd u = [PStr (inserted_id e UsersInsertOne), PStr (uc_email ud),
                     opt_str (uc_name ud), PDate (now w + cost e UsersFindOne)]"
    by (simp add: u)
next
  assume a: "fst (authenticate_user e w em pw) = Inr (Some u')"
  then obtain d where d: "find (\<lambda>u. map_of (snd u) ''email'' = Some (PStr em)) (users w) = Some d"
    by (auto simp: authenticate_user_def db_defs Let_def split: option.splits)
  then have m: "d \<in> set (users w)" and p: "map_of (snd d) ''email'' = Some (PStr em)"
    by (auto dest: find_Some_D)
  from a d p have u: "u' = [(''id'', PStr (fst d)), (''email'', PStr em),
                  (''name'', dict_get (snd d) ''name''),
                  (''created_at'', dict_get (snd d) ''created_at'')]"
    by (auto simp: authenticate_user_def db_defs Let_def dict_item_def dict_get_def
          split: option.splits if_splits)
  show "map fst u' = [''id'', ''email'', ''name'', ''created_at'']" by (simp add: u)
  show "''password_hash'' \<notin> set (map fst u')" by (simp add: u)
  from m show "\<exists>d\<in>set (users w).
            map snd u' = [PStr (fst d), PStr em, dict_get (snd d) ''name'',
                          dict_get (snd d) ''created_at'']"
    by (auto simp: u)
next
  assume a: "fst (register cfg e w ud) = Inr r"
  then show "r = \<lparr>ur_id = inserted_id e UsersInsertOne, ur_email = uc_email ud,
           ur_name = uc_name ud, ur_created_at = now w + cost e UsersFindOne\<rparr>"
    by (auto simp: register_def create_user_def db_defs Let_def dict_item_def dict_get_def
          mk_UserResponse_def opt_str_def
          split: option.splits if_splits sum.splits prod.splits)
next
  assume a: "fst (login cfg jw e w cr) = Inr tk"
  note l = login_token_claims [OF a]
  from l show "token_type tk = ''bearer''" by blast
  from l show "expires_in tk = jwt_expiry_minutes cfg * 60" by blast
  from l show "\<exists>d\<in>set (users w).
            jwt_encode jw [(''sub'', PStr (fst d)), (''email'', PStr (ul_email cr)),
                           (''exp'', PDate (now w + cost e UsersFindOne
                                            + of_int (jwt_expiry_minutes cfg) * 60))]
              (jwt_secret_key cfg) (jwt_algorithm cfg) = Inr (access_token tk)"
    by blast
qed

theorem returned_user_has_no_credential_witness:
  "fst (create_user demo_env demo_world demo_new_user)
     = Inr [(''id'', PStr ''65a1b2c3d4e5f60718293a4d''), (''email'', PStr ''u2@example.com''),
            (''name'', PStr ''Una''), (''created_at'', PDate (10001 / 10))]
   \<and> fst (authenticate_user demo_env demo_world ''u1@example.com'' ''pw1'')
     = Inr (Some [(''id'', PStr ''65a1b2c3d4e5f60718293a4b''),
                  (''email'', PStr ''u1@example.com''), (''name'', PNone),
                  (''created_at'', PDate 900)])
   \<and> fst (register demo_cfg demo_env demo_world demo_new_user)
     = Inr \<lparr>ur_id = ''65a1b2c3d4e5f60718293a4d'', ur_email = ''u2@example.com'',
            ur_name = Some ''Una'', ur_created_at = 10001 / 10\<rparr>
   \<and> fst (login demo_cfg demo_jose demo_env demo_world
              \<lparr>ul_email = ''u1@example.com'', ul_password = ''pw1''\<rparr>)
     = Inr \<lparr>access_token = ''signed'', token_type = ''bearer'', expires_in = 3600\<rparr>"
  using returned_user_has_no_credential [where e = demo_env and w = demo_world
      and ud = demo_new_user and cfg = demo_cfg and em = "''u1@example.com''"
      and pw = "''pw1''" and jw = demo_jose
      and cr = "\<lparr>ul_email = ''u1@example.com'', ul_password = ''pw1''\<rparr>"]
  by (simp add: create_user_def authenticate_user_def register_def login_def
        create_access_token_def db_defs demo_defs
        dict_item_def dict_get_def mk_UserResponse_def opt_str_def hash_password_def
        verify_password_def)

text \<open>
  C3, the counterexample.  No user has the email when \<open>register\<close> looks (the pre-check
  passes) and the insert fails with a duplicate key: what leaves \<open>register\<close> is the
  driver's exception itself, a 500, and not the outcome of a registered email.
\<close>

theorem register_race_counterexample:
  "fst (users_find_one insert_race demo_world (uc_email demo_new_user)) = Inr None
   \<and> fails insert_race UsersInsertOne = Some (DuplicateKeyError ''E11000 duplicate key error'')
   \<and> fst (register demo_cfg insert_race demo_world demo_new_user)
       = Inl (Unhandled (DuplicateKeyError ''E11000 duplicate key error''))
   \<and> fst (register demo_cfg insert_race demo_world demo_new_user)
       \<noteq> Inl (HTTPException 400 ''Email already registered'')
   \<and> status_code (fst (register demo_cfg insert_race demo_world demo_new_user)) = 500"
  by (simp add: register_def create_user_def db_defs demo_defs Let_def)

text \<open>
  C3, as amended.  With the database configured and the look-up answering: when a
  user has the email, \<open>register\<close> fails with \<open>HTTPException(400, "Email already
  registered")\<close> and only the clock has moved; when no user has it and the insert
  raises, \<open>register\<close> ends with that exception, unhandled, and again only the clock
  has moved: no user is stored and no audit entry written.
\<close>

theorem register_conflict:
  "mongodb_uri cfg \<noteq> [] \<Longrightarrow> fails e UsersFindOne = None \<Longrightarrow>
   ((\<exists>d\<in>set (users w). map_of (snd d) ''email'' = Some (PStr (uc_email ud))) \<longrightarrow>
      register cfg e w ud
        = (Inl (HTTPException 400 ''Email already registered''), elapse e UsersFindOne w))
   \<and> ((\<forall>d\<in>set (users w). map_of (snd d) ''email'' \<noteq> Some (PStr (uc_email ud)))
        \<and> fails e UsersInsertOne = Some x \<longrightarrow>
      register cfg e w ud
        = (Inl (Unhandled x), elapse e UsersInsertOne (elapse e UsersFindOne w)))"
proof (intro conjI impI)
  assume c: "mongodb_uri cfg \<noteq> []" and f: "fails e UsersFindOne = None"
  assume "\<exists>d\<in>set (users w). map_of (snd d) ''email'' = Some (PStr (uc_email ud))"
  then obtain d where
    "find (\<lambda>u. map_of (snd u) ''email'' = Some (PStr (uc_email ud))) (users w) = Some d"
    by (cases "find (\<lambda>u. map_of (snd u) ''email'' = Some (PStr (uc_email ud))) (users w)")
       (auto simp: find_None_iff2)
  with c f show "register cfg e w ud
        = (Inl (HTTPException 400 ''Email already registered''), elapse e UsersFindOne w)"
    by (simp add: register_def create_user_def db_defs Let_def)
next
  assume c: "mongodb_uri cfg \<noteq> []" and f: "fails e UsersFindOne = None"
  assume "(\<forall>d\<in>set (users w). map_of (snd d) ''email'' \<noteq> Some (PStr (uc_email ud)))
        \<and> fails e UsersInsertOne = Some x"
  then have n: "find (\<lambda>u. map_of (snd u) ''email'' = Some (PStr (uc_email ud))) (users w) = None"
    and i: "fails e UsersInsertOne = Some x"
    by (auto simp: find_None_iff2)
  with c f show "register cfg e w ud
        = (Inl (Unhandled x), elapse e UsersInsertOne (elapse e UsersFindOne w))"
    by (simp add: register_def create_user_def db_defs Let_def)
qed

theorem register_conflict_witness:
  "mongodb_uri demo_cfg \<noteq> [] \<and> fails demo_env UsersFindOne = None
   \<and> fails insert_race UsersFindOne = None
   \<and> register demo_cfg demo_env demo_world demo_existing_user
       = (Inl (HTTPException 400 ''Email already registered''), demo_world\<lparr>now := 10001 / 10\<rparr>)
   \<and> register demo_cfg insert_race demo_world demo_new_user
       = (Inl (Unhandled (DuplicateKeyError ''E11000 duplicate key error'')),
          demo_world\<lparr>now := 5001 / 5\<rparr>)"
  using register_conflict [where cfg = demo_cfg and e = demo_env and w = demo_world
      and ud = demo_existing_user]
    register_conflict [where cfg = demo_cfg and e = insert_race and w = demo_world
      and ud = demo_new_user
      and x = "DuplicateKeyError ''E11000 duplicate key error''"]
  by (simp add: register_def create_user_def db_defs demo_defs Let_def)

lemma run_analysis_frame: "\<exists>t. snd (run_analysis e st rq w) = w\<lparr>now := t\<rparr>"
  unfolding run_analysis_def elapse_def Let_def
  by (auto split: sum.splits exn.splits prod.splits if_splits)

lemma fetch_image_stage_frame: "\<exists>t. snd (fetch_image_stage cfg e st kd w) = w\<lparr>now := t\<rparr>"
  unfolding fetch_image_stage_def elapse_def Let_def
  by (auto split: sum.splits intro: exI [of _ "now w"])

lemma elapse_fails: "elapse (e\<lparr>fails := f\<rparr>) c w = elapse e c w"
  by (simp add: elapse_def)

lemma run_analysis_fails: "run_analysis (e\<lparr>fails := f\<rparr>) st rq w = run_analysis e st rq w"
  by (simp add: run_analysis_def elapse_fails
        cong: sum.case_cong exn.case_cong prod.case_cong if_cong)

lemma fetch_image_stage_fails:
  "fetch_image_stage cfg (e\<lparr>fails := f\<rparr>) st kd w = fetch_image_stage cfg e st kd w"
  by (simp add: fetch_image_stage_def elapse_fails cong: sum.case_cong if_cong)

subsection \<open>The pipeline\<close>

text \<open>
  C6.  When the steps up to the prompt succeed and the generator raises,
  \<open>generate_blog\<close> ends with \<open>HTTPException(500, "Blog generation failed: ...")\<close>;
  only the clock has moved: no blog document is stored, no audit entry is written, and
  the users are as they were.
\<close>

theorem generation_failure_persists_nothing:
  "run_analysis e st rq w = (Inr ctx, w1) \<Longrightarrow>
   generator_generate st (ctx_prompt ctx) = Inl x \<Longrightarrow>
   generate_blog cfg e st rq u w
     = (Inl (HTTPException 500 (''Blog generation failed: '' @ str_exn x)),
        elapse e Generate w1)
   \<and> status_code (fst (generate_blog cfg e st rq u w)) = 500
   \<and> blogs (snd (generate_blog cfg e st rq u w)) = blogs w
   \<and> history (snd (generate_blog cfg e st rq u w)) = history w
   \<and> users (snd (generate_blog cfg e st rq u w)) = users w"
proof -
  assume a: "run_analysis e st rq w = (Inr ctx, w1)"
    and g: "generator_generate st (ctx_prompt ctx) = Inl x"
  have r: "generate_blog cfg e st rq u w
     = (Inl (HTTPException 500 (''Blog generation failed: '' @ str_exn x)),
        elapse e Generate w1)"
    using a g by (simp add: generate_blog_def generate_blog_body_def Let_def)
  obtain t where "snd (run_analysis e st rq w) = w\<lparr>now := t\<rparr>"
    using run_analysis_frame by blast
  with a have "w1 = w\<lparr>now := t\<rparr>" by simp
  with r show ?thesis by (simp add: elapse_def)
qed

lemma find_filter_owner:
  "find (\<lambda>d. fst d = oid \<and> P d) xs = find (\<lambda>d. fst d = oid) (filter P xs)"
  by (induction xs) auto

text \<open>
  C7.  \<open>get_blog\<close>: an identifier that \<open>ObjectId\<close> refuses gives 400 and touches
  nothing.  An identifier under which the caller owns no document gives 404, whether
  no document has it or another user's document has.  The outcome is the same in two
  states that hold the same documents of the caller, whatever the other users'
  documents are.  A response that is returned carries a document of the caller.
\<close>

theorem get_blog_owner_only:
  "(ObjectId blog_id = None \<longrightarrow>
      get_blog ObjectId e w blog_id u = (Inl (HTTPException 400 ''Invalid blog ID''), w))
   \<and> (ObjectId blog_id = Some oid \<and> fails e BlogsFindOne = None
        \<and> (\<forall>d\<in>set (blogs w). fst d = oid \<longrightarrow> bd_user_id (snd d) \<noteq> td_user_id u) \<longrightarrow>
      fst (get_blog ObjectId e w blog_id u) = Inl (HTTPException 404 ''Blog not found''))
   \<and> (filter (\<lambda>d. bd_user_id (snd d) = td_user_id u) (blogs w)
          = filter (\<lambda>d. bd_user_id (snd d) = td_user_id u) (blogs w2) \<longrightarrow>
      fst (get_blog ObjectId e w blog_id u) = fst (get_blog ObjectId e w2 blog_id u))
   \<and> (fst (get_blog ObjectId e w blog_id u) = Inr r \<longrightarrow>
      (\<exists>d\<in>set (blogs w). ObjectId blog_id = Some (fst d)
          \<and> bd_user_id (snd d) = td_user_id u
          \<and> resp_blog r = bd_blog (snd d) \<and> resp_keywords r = bd_keywords (snd d)
          \<and> resp_analysis r = bd_analysis (snd d)))"
proof (intro conjI impI)
  assume "ObjectId blog_id = None"
  then show "get_blog ObjectId e w blog_id u = (Inl (HTTPException 400 ''Invalid blog ID''), w)"
    by (simp add: get_blog_def)
next
  assume a: "ObjectId blog_id = Some oid \<and> fails e BlogsFindOne = None
        \<and> (\<forall>d\<in>set (blogs w). fst d = oid \<longrightarrow> bd_user_id (snd d) \<noteq> td_user_id u)"
  then have "find (\<lambda>d. fst d = oid \<and> bd_user_id (snd d) = td_user_id u) (blogs w) = None"
    by (auto simp: find_None_iff2)
  with a show "fst (get_blog ObjectId e w blog_id u) = Inl (HTTPException 404 ''Blog not found'')"
    by (simp add: get_blog_def db_defs Let_def)
next
  assume "filter (\<lambda>d. bd_user_id (snd d) = td_user_id u) (blogs w)
          = filter (\<lambda>d. bd_user_id (snd d) = td_user_id u) (blogs w2)"
  then have "find (\<lambda>d. fst d = x \<and> bd_user_id (snd d) = td_user_id u) (blogs w)
           = find (\<lambda>d. fst d = x \<and> bd_user_id (snd d) = td_user_id u) (blogs w2)" for x
    by (simp add: find_filter_owner)
  then show "fst (get_blog ObjectId e w blog_id u) = fst (get_blog ObjectId e w2 blog_id u)"
    by (simp add: get_blog_def db_defs Let_def split: option.splits)
next
  assume a: "fst (get_blog ObjectId e w blog_id u) = Inr r"
  then obtain x d where x: "ObjectId blog_id = Some x"
    and d: "find (\<lambda>d. fst d = x \<and> bd_user_id (snd d) = td_user_id u) (blogs w) = Some d"
    by (auto simp: get_blog_def db_defs Let_def split: option.splits)
  from d have m: "d \<in> set (blogs w)" and p: "fst d = x \<and> bd_user_id (snd d) = td_user_id u"
    by (auto dest: find_Some_D)
  from a x d have "resp_blog r = bd_blog (snd d) \<and> resp_keywords r = bd_keywords (snd d)
          \<and> resp_analysis r = bd_analysis (snd d)"
    by (auto simp: get_blog_def db_defs Let_def split: option.splits)
  with m p x show "\<exists>d\<in>set (blogs w). ObjectId blog_id = Some (fst d)
          \<and> bd_user_id (snd d) = td_user_id u
          \<and> resp_blog r = bd_blog (snd d) \<and> resp_keywords r = bd_keywords (snd d)
          \<and> resp_analysis r = bd_analysis (snd d)"
    by auto
qed

lemma generate_blog_Inr:
  "fst (generate_blog cfg e st rq u w) = Inr r \<Longrightarrow>
   generate_blog_body cfg e st rq u w = (Inr r, snd (generate_blog cfg e st rq u w))"
  by (auto simp: generate_blog_def split: prod.splits sum.splits raised.splits)

lemma generate_blog_body_Inr:
  "generate_blog_body cfg e st rq u w = (Inr r, w') \<Longrightarrow>
   \<exists>ctx w1 bd pr featured additional w3.
     run_analysis e st rq w = (Inr ctx, w1)
     \<and> generator_generate st (ctx_prompt ctx) = Inr bd
     \<and> fetch_image_stage cfg e st (ctx_keywords ctx) (elapse e Generate w1)
         = ((featured, additional), w3)
     \<and> seo_process st bd (primary_keywords (ctx_keywords ctx)
                           @ secondary_keywords (ctx_keywords ctx)) = Inr pr
     \<and> persist_and_audit e rq u (now w) ctx pr featured additional (elapse e SeoProcess w3)
         = (Inr r, w')"
  by (auto simp: generate_blog_body_def Let_def split: prod.splits sum.splits)

lemma persist_and_audit_Inr:
  "persist_and_audit e rq u start ctx pr featured additional w = (Inr r, w') \<Longrightarrow>
   resp_processing_time r = py_round2 (now w - start)
   \<and> now w' = now w + cost e BlogsInsertOne + cost e HistoryInsertOne"
  by (auto simp: persist_and_audit_def db_defs Let_def split: option.splits)

text \<open>
  C2, as amended.  The processing time of a successful run is the time from the start
  of the pipeline to the moment after SEO post-processing, rounded to two decimal
  places: the time to the return less the time of the insert of the blog document and
  less the time of the audit write.
\<close>

theorem processing_time_excludes_persistence:
  "fst (generate_blog cfg e st rq u w) = Inr r \<Longrightarrow>
   resp_processing_time r
     = py_round2 (now (snd (generate_blog cfg e st rq u w))
                  - cost e BlogsInsertOne - cost e HistoryInsertOne - now w)"
proof -
  assume "fst (generate_blog cfg e st rq u w) = Inr r"
  then have "generate_blog_body cfg e st rq u w = (Inr r, snd (generate_blog cfg e st rq u w))"
    by (rule generate_blog_Inr)
  then obtain ctx pr featured additional w3 where
    "persist_and_audit e rq u (now w) ctx pr featured additional (elapse e SeoProcess w3)
       = (Inr r, snd (generate_blog cfg e st rq u w))"
    by (blast dest: generate_blog_body_Inr)
  then have "resp_processing_time r = py_round2 (now (elapse e SeoProcess w3) - now w)
     \<and> now (snd (generate_blog cfg e st rq u w))
         = now (elapse e SeoProcess w3) + cost e BlogsInsertOne + cost e HistoryInsertOne"
    by (rule persist_and_audit_Inr)
  then show ?thesis by simp
qed

lemma fetch_image_stage_result:
  "fst (fetch_image_stage cfg e st kd w) =
     (if unsplash_access_key cfg = [] then (None, [])
      else case image_get_featured_image st (primary_keywords kd) of
             Inl x \<Rightarrow> (None, [])
           | Inr f \<Rightarrow> (case image_fetch_images st (primary_keywords kd) 3 of
                        Inl x \<Rightarrow> (f, [])
                      | Inr imgs \<Rightarrow> (f, imgs)))"
  by (simp add: fetch_image_stage_def Let_def split: sum.splits)

text \<open>
  C8, as amended.  In a run whose steps up to the prompt, generation, SEO
  post-processing, insert and audit write succeed, the response is a 200 whatever the
  image calls do, and every field but the two image fields and the processing time is
  what these steps gave.  With no Unsplash key, or when \<open>get_featured_image\<close> raises,
  there is no featured image and no additional image; when \<open>get_featured_image\<close> has
  returned and \<open>fetch_images\<close> raises, the featured image is the one returned and
  there is no additional image.
\<close>

theorem image_failure_degrades:
  assumes "run_analysis e st rq w = (Inr ctx, w1)"
    and "generator_generate st (ctx_prompt ctx) = Inr bd"
    and "seo_process st bd (primary_keywords (ctx_keywords ctx)
                            @ secondary_keywords (ctx_keywords ctx)) = Inr pr"
    and "fails e BlogsInsertOne = None" and "fails e HistoryInsertOne = None"
    and "fetch_image_stage cfg e st (ctx_keywords ctx) (elapse e Generate w1)
           = ((featured, additional), w3)"
  shows "fst (generate_blog cfg e st rq u w)
           = Inr \<lparr>resp_success = True,
                  resp_blog = (pr_blog pr)\<lparr>featured_image := featured,
                                            additional_images := additional\<rparr>,
                  resp_keywords = ctx_keywords ctx,
                  resp_analysis = ctx_analysis ctx,
                  resp_word_count = sa_word_count (pr_seo_analysis pr),
                  resp_processing_time = py_round2 (now w3 + cost e SeoProcess - now w),
                  resp_generated_at = None\<rparr>
         \<and> status_code (fst (generate_blog cfg e st rq u w)) = 200
         \<and> (unsplash_access_key cfg = []
              \<or> isl (image_get_featured_image st (primary_keywords (ctx_keywords ctx)))
              \<longrightarrow> featured = None \<and> additional = [])
         \<and> (unsplash_access_key cfg \<noteq> []
              \<and> image_get_featured_image st (primary_keywords (ctx_keywords ctx)) = Inr f
              \<and> isl (image_fetch_images st (primary_keywords (ctx_keywords ctx)) 3)
              \<longrightarrow> featured = f \<and> additional = [])"
proof -
  have r: "fst (generate_blog cfg e st rq u w)
           = Inr \<lparr>resp_success = True,
                  resp_blog = (pr_blog pr)\<lparr>featured_image := featured,
                                            additional_images := additional\<rparr>,
                  resp_keywords = ctx_keywords ctx,
                  resp_analysis = ctx_analysis ctx,
                  resp_word_count = sa_word_count (pr_seo_analysis pr),
                  resp_processing_time = py_round2 (now w3 + cost e SeoProcess - now w),
                  resp_generated_at = None\<rparr>"
    using assms
    by (simp add: generate_blog_def generate_blog_body_def persist_and_audit_def db_defs Let_def)
  have i: "fst (fetch_image_stage cfg e st (ctx_keywords ctx) (elapse e Generate w1))
             = (featured, additional)"
    using assms(6) by simp
  have a: "unsplash_access_key cfg = []
              \<or> isl (image_get_featured_image st (primary_keywords (ctx_keywords ctx)))
              \<longrightarrow> featured = None \<and> additional = []"
    using i by (auto simp: fetch_image_stage_result isl_def split: if_splits)
  have b: "unsplash_access_key cfg \<noteq> []
              \<and> image_get_featured_image st (primary_keywords (ctx_keywords ctx)) = Inr f
              \<and> isl (image_fetch_images st (primary_keywords (ctx_keywords ctx)) 3)
              \<longrightarrow> featured = f \<and> additional = []"
    using i by (auto simp: fetch_image_stage_result isl_def split: if_splits)
  from r a b show ?thesis by simp
qed

lemma driver_audit:
  "users_find_one (e\<lparr>fails := (fails e)(HistoryInsertOne := None)\<rparr>) w em
     = users_find_one e w em"
  "users_insert_one (e\<lparr>fails := (fails e)(HistoryInsertOne := None)\<rparr>) w d
     = users_insert_one e w d"
  "blogs_insert_one (e\<lparr>fails := (fails e)(HistoryInsertOne := None)\<rparr>) w b
     = blogs_insert_one e w b"
  by (simp_all add: db_defs Let_def split: option.splits)

lemma create_user_audit:
  "create_user (e\<lparr>fails := (fails e)(HistoryInsertOne := None)\<rparr>) w ud = create_user e w ud"
  by (simp add: create_user_def driver_audit
        cong: prod.case_cong sum.case_cong option.case_cong)

lemma authenticate_user_audit:
  "authenticate_user (e\<lparr>fails := (fails e)(HistoryInsertOne := None)\<rparr>) w em pw
     = authenticate_user e w em pw"
  by (simp add: authenticate_user_def driver_audit)

lemma register_audit_down:
  assumes "fails e HistoryInsertOne = Some x"
  shows "isl (fst (register cfg e w ud))"
    and "fst (register cfg (e\<lparr>fails := (fails e)(HistoryInsertOne := None)\<rparr>) w ud) = Inr ur
         \<Longrightarrow> fst (register cfg e w ud) = Inl (Unhandled x)
             \<and> users (snd (register cfg e w ud))
                 = users (snd (register cfg (e\<lparr>fails := (fails e)(HistoryInsertOne := None)\<rparr>) w ud))
             \<and> length (users (snd (register cfg e w ud))) = Suc (length (users w))"
  using assms
  by (auto simp: register_def create_user_def db_defs Let_def dict_item_def
        split: option.splits if_splits sum.splits prod.splits)

lemma login_audit_down:
  assumes "fails e HistoryInsertOne = Some x"
  shows "isl (fst (login cfg jw e w cr))"
    and "fst (login cfg jw (e\<lparr>fails := (fails e)(HistoryInsertOne := None)\<rparr>) w cr) = Inr tk
         \<Longrightarrow> fst (login cfg jw e w cr) = Inl (Unhandled x)"
  using assms
  by (auto simp: login_def authenticate_user_audit db_defs(3,6,7) Let_def
        split: option.splits if_splits sum.splits prod.splits)

lemma persist_and_audit_down:
  assumes "fails e HistoryInsertOne = Some x"
  shows "isl (fst (persist_and_audit e rq u start ctx pr f a w))"
    and "persist_and_audit (e\<lparr>fails := (fails e)(HistoryInsertOne := None)\<rparr>)
           rq u start ctx pr f a w = (Inr r, w')
         \<Longrightarrow> fst (persist_and_audit e rq u start ctx pr f a w) = Inl (Unhandled x)
             \<and> blogs (snd (persist_and_audit e rq u start ctx pr f a w)) = blogs w'
             \<and> length (blogs w') = Suc (length (blogs w))"
  using assms
  by (auto simp: persist_and_audit_def db_defs Let_def split: option.splits)

lemma generate_blog_audit_isl:
  assumes "fails e HistoryInsertOne = Some x"
  shows "isl (fst (generate_blog cfg e st rq u w))"
proof (cases "fst (generate_blog cfg e st rq u w)")
  case (Inl a)
  then show ?thesis by simp
next
  case (Inr r)
  then have "generate_blog_body cfg e st rq u w = (Inr r, snd (generate_blog cfg e st rq u w))"
    by (rule generate_blog_Inr)
  then obtain ctx pr featured additional w3 where
    "persist_and_audit e rq u (now w) ctx pr featured additional (elapse e SeoProcess w3)
       = (Inr r, snd (generate_blog cfg e st rq u w))"
    by (blast dest: generate_blog_body_Inr)
  with persist_and_audit_down(1) [OF assms, of rq u "now w" ctx pr featured additional
      "elapse e SeoProcess w3"]
  show ?thesis by simp
qed

lemma generate_blog_audit_down:
  assumes x: "fails e HistoryInsertOne = Some x"
    and ok: "fst (generate_blog cfg (e\<lparr>fails := (fails e)(HistoryInsertOne := None)\<rparr>)
                   st rq u w) = Inr r"
  shows "fst (generate_blog cfg e st rq u w)
           = Inl (HTTPException 500 (''Internal server error: '' @ str_exn x))
         \<and> blogs (snd (generate_blog cfg e st rq u w))
             = blogs (snd (generate_blog cfg (e\<lparr>fails := (fails e)(HistoryInsertOne := None)\<rparr>)
                            st rq u w))
         \<and> length (blogs (snd (generate_blog cfg e st rq u w))) = Suc (length (blogs w))"
proof -
  let ?ok = "e\<lparr>fails := (fails e)(HistoryInsertOne := None)\<rparr>"
  let ?w' = "snd (generate_blog cfg ?ok st rq u w)"
  from ok have "generate_blog_body cfg ?ok st rq u w = (Inr r, ?w')"
    by (rule generate_blog_Inr)
  then obtain ctx w1 bd pr featured additional w3 where
    a: "run_analysis ?ok st rq w = (Inr ctx, w1)"
    and g: "generator_generate st (ctx_prompt ctx) = Inr bd"
    and i: "fetch_image_stage cfg ?ok st (ctx_keywords ctx) (elapse ?ok Generate w1)
              = ((featured, additional), w3)"
    and s: "seo_process st bd (primary_keywords (ctx_keywords ctx)
                               @ secondary_keywords (ctx_keywords ctx)) = Inr pr"
    and p: "persist_and_audit ?ok rq u (now w) ctx pr featured additional
              (elapse ?ok SeoProcess w3) = (Inr r, ?w')"
    by (blast dest: generate_blog_body_Inr)
  from a have a': "run_analysis e st rq w = (Inr ctx, w1)"
    by (simp add: run_analysis_fails)
  from i have i': "fetch_image_stage cfg e st (ctx_keywords ctx) (elapse e Generate w1)
              = ((featured, additional), w3)"
    by (simp add: fetch_image_stage_fails elapse_fails)
  from p have p': "persist_and_audit ?ok rq u (now w) ctx pr featured additional
              (elapse e SeoProcess w3) = (Inr r, ?w')"
    by (simp add: elapse_fails)
  have b: "generate_blog_body cfg e st rq u w
             = persist_and_audit e rq u (now w) ctx pr featured additional
                 (elapse e SeoProcess w3)"
    using a' g i' s by (simp add: generate_blog_body_def Let_def)
  note d = persist_and_audit_down(2) [OF x p']
  obtain t where "snd (run_analysis e st rq w) = w\<lparr>now := t\<rparr>"
    using run_analysis_frame by blast
  with a' have w1: "blogs w1 = blogs w" by simp
  obtain t' where "snd (fetch_image_stage cfg e st (ctx_keywords ctx) (elapse e Generate w1))
                     = (elapse e Generate w1)\<lparr>now := t'\<rparr>"
    using fetch_image_stage_frame by blast
  with i' have w3: "blogs w3 = blogs w1" by (simp add: elapse_def)
  from d b w1 w3 show ?thesis
    by (cases "persist_and_audit e rq u (now w) ctx pr featured additional
                 (elapse e SeoProcess w3)")
       (simp add: generate_blog_def elapse_def)
qed

text \<open>
  C1, as amended.  When the audit write raises, none of \<open>register\<close>, \<open>login\<close>,
  \<open>logout\<close>, \<open>generate_blog\<close> returns its result.  A call that would have returned
  had the write succeeded ends with the driver's exception: unhandled from
  \<open>register\<close>, \<open>login\<close> and \<open>logout\<close>, as \<open>HTTPException(500, "Internal server
  error: ...")\<close> from \<open>generate_blog\<close>.  The user that \<open>register\<close> inserted and the
  blog document that \<open>generate_blog\<close> inserted stay stored.
\<close>

theorem audit_failure_fails_operation:
  assumes "fails e HistoryInsertOne = Some x"
  shows "isl (fst (register cfg e w ud)) \<and> isl (fst (login cfg jw e w cr))
         \<and> fst (logout e w u) = Inl (Unhandled x)
         \<and> isl (fst (generate_blog cfg e st rq u w))
         \<and> (fst (register cfg (e\<lparr>fails := (fails e)(HistoryInsertOne := None)\<rparr>) w ud) = Inr ur
              \<longrightarrow> fst (register cfg e w ud) = Inl (Unhandled x)
                  \<and> length (users (snd (register cfg e w ud))) = Suc (length (users w)))
         \<and> (fst (login cfg jw (e\<lparr>fails := (fails e)(HistoryInsertOne := None)\<rparr>) w cr) = Inr tk
              \<longrightarrow> fst (login cfg jw e w cr) = Inl (Unhandled x))
         \<and> (fst (generate_blog cfg (e\<lparr>fails := (fails e)(HistoryInsertOne := None)\<rparr>)
                     st rq u w) = Inr r
              \<longrightarrow> fst (generate_blog cfg e st rq u w)
                    = Inl (HTTPException 500 (''Internal server error: '' @ str_exn x))
                  \<and> length (blogs (snd (generate_blog cfg e st rq u w)))
                      = Suc (length (blogs w)))"
proof -
  have l: "fst (logout e w u) = Inl (Unhandled x)"
    using assms by (simp add: logout_def db_defs Let_def)
  have r: "fst (register cfg (e\<lparr>fails := (fails e)(HistoryInsertOne := None)\<rparr>) w ud) = Inr ur
              \<longrightarrow> fst (register cfg e w ud) = Inl (Unhandled x)
                  \<and> length (users (snd (register cfg e w ud))) = Suc (length (users w))"
    using register_audit_down(2) [OF assms, of cfg w ud ur] by blast
  have n: "fst (login cfg jw (e\<lparr>fails := (fails e)(HistoryInsertOne := None)\<rparr>) w cr) = Inr tk
              \<longrightarrow> fst (login cfg jw e w cr) = Inl (Unhandled x)"
    using login_audit_down(2) [OF assms, of cfg jw w cr tk] by blast
  have g: "fst (generate_blog cfg (e\<lparr>fails := (fails e)(HistoryInsertOne := None)\<rparr>)
                     st rq u w) = Inr r
              \<longrightarrow> fst (generate_blog cfg e st rq u w)
                    = Inl (HTTPException 500 (''Internal server error: '' @ str_exn x))
                  \<and> length (blogs (snd (generate_blog cfg e st rq u w)))
                      = Suc (length (blogs w))"
    using generate_blog_audit_down [OF assms, of cfg st rq u w r] by blast
  from l r n g register_audit_down(1) [OF assms, of cfg w ud]
    login_audit_down(1) [OF assms, of cfg jw w cr]
    generate_blog_audit_isl [OF assms, of cfg st rq u w]
  show ?thesis by blast
qed

lemmas pipeline_defs = generate_blog_def generate_blog_body_def run_analysis_def
  fetch_image_stage_def persist_and_audit_def get_title_def py_round2_def

lemmas stage_defs = generation_down_def images_half_down_def images_down_def

text \<open>
  C1, the counterexample.  With the audit write failing, \<open>logout\<close> and
  \<open>generate_blog\<close> end in an exception where they return with the write succeeding.
\<close>

theorem audit_failure_counterexample:
  "fails audit_down HistoryInsertOne = Some (OtherError ''connection closed'')
   \<and> fst (logout demo_env demo_world demo_user) = Inr ''Logged out successfully''
   \<and> fst (logout audit_down demo_world demo_user)
       = Inl (Unhandled (OtherError ''connection closed''))
   \<and> fst (generate_blog demo_cfg audit_down demo_stages demo_request demo_user demo_world)
       = Inl (HTTPException 500 ''Internal server error: connection closed'')
   \<and> status_code (fst (generate_blog demo_cfg audit_down demo_stages demo_request demo_user
                          demo_world)) = 500"
  by (simp add: logout_def pipeline_defs db_defs demo_defs Let_def)

theorem audit_failure_fails_operation_witness:
  "fails audit_down HistoryInsertOne = Some (OtherError ''connection closed'')
   \<and> \<not> isl (fst (register demo_cfg
                (audit_down\<lparr>fails := (fails audit_down)(HistoryInsertOne := None)\<rparr>)
                demo_world demo_new_user))
   \<and> fst (register demo_cfg audit_down demo_world demo_new_user)
       = Inl (Unhandled (OtherError ''connection closed''))
   \<and> length (users (snd (register demo_cfg audit_down demo_world demo_new_user))) = 2
   \<and> \<not> isl (fst (login demo_cfg demo_jose
                (audit_down\<lparr>fails := (fails audit_down)(HistoryInsertOne := None)\<rparr>)
                demo_world \<lparr>ul_email = ''u1@example.com'', ul_password = ''pw1''\<rparr>))
   \<and> fst (login demo_cfg demo_jose audit_down demo_world
              \<lparr>ul_email = ''u1@example.com'', ul_password = ''pw1''\<rparr>)
       = Inl (Unhandled (OtherError ''connection closed''))
   \<and> \<not> isl (fst (generate_blog demo_cfg
                (audit_down\<lparr>fails := (fails audit_down)(HistoryInsertOne := None)\<rparr>)
                demo_stages demo_request demo_user demo_world))
   \<and> length (blogs (snd (generate_blog demo_cfg audit_down demo_stages demo_request
                              demo_user demo_world))) = 2"
  using audit_failure_fails_operation [where e = audit_down
      and x = "OtherError ''connection closed''" and cfg = demo_cfg and w = demo_world
      and ud = demo_new_user and jw = demo_jose
      and cr = "\<lparr>ul_email = ''u1@example.com'', ul_password = ''pw1''\<rparr>"
      and u = demo_user and st = demo_stages and rq = demo_request]
  by (simp add: register_def login_def create_user_def authenticate_user_def
        create_access_token_def pipeline_defs db_defs demo_defs Let_def dict_item_def
        dict_get_def mk_UserResponse_def opt_str_def verify_password_def hash_password_def)

text \<open>
  C2, the counterexample.  The insert takes 5 seconds and the audit write 2 of the 8
  seconds of the run; the response says 1.
\<close>

theorem processing_time_counterexample:
  "fst (generate_blog demo_cfg demo_env demo_stages demo_request demo_user demo_world)
     = Inr \<lparr>resp_success = True,
            resp_blog = \<lparr>bc_title = ''Example'', bc_rest = ''draft'',
                          featured_image = Some ''image-1'',
                          additional_images = [''image-2'', ''image-3'']\<rparr>,
            resp_keywords = \<lparr>primary_keywords = [''example''],
                              secondary_keywords = [''domain''], keyword_density = []\<rparr>,
            resp_analysis = \<lparr>summary = ''s'', intent = ''informational'',
                              topics = [''t''], content_length = 4\<rparr>,
            resp_word_count = 1, resp_processing_time = 1, resp_generated_at = None\<rparr>
   \<and> cost demo_env BlogsInsertOne = 5 \<and> cost demo_env HistoryInsertOne = 2
   \<and> now (snd (generate_blog demo_cfg demo_env demo_stages demo_request demo_user
                    demo_world)) - now demo_world = 8"
  by (simp add: pipeline_defs db_defs demo_defs Let_def)

theorem processing_time_excludes_persistence_witness:
  "\<not> isl (fst (generate_blog demo_cfg demo_env demo_stages demo_request demo_user demo_world))
   \<and> projr (fst (generate_blog demo_cfg demo_env demo_stages demo_request demo_user
                     demo_world))
       = \<lparr>resp_success = True,
            resp_blog = \<lparr>bc_title = ''Example'', bc_rest = ''draft'',
                          featured_image = Some ''image-1'',
                          additional_images = [''image-2'', ''image-3'']\<rparr>,
            resp_keywords = \<lparr>primary_keywords = [''example''],
                              secondary_keywords = [''domain''], keyword_density = []\<rparr>,
            resp_analysis = \<lparr>summary = ''s'', intent = ''informational'',
                              topics = [''t''], content_length = 4\<rparr>,
            resp_word_count = 1, resp_processing_time = py_round2 (1008 - 5 - 2 - 1000),
            resp_generated_at = None\<rparr>"
  using processing_time_excludes_persistence [where cfg = demo_cfg and e = demo_env
      and st = demo_stages and rq = demo_request and u = demo_user and w = demo_world]
  by (simp add: pipeline_defs db_defs demo_defs Let_def)

theorem generation_failure_persists_nothing_witness:
  "run_analysis demo_env generation_down demo_request demo_world
     = (Inr \<lparr>ctx_content = \<lparr>cd_text = ''raw text'', cd_title = Some ''Example''\<rparr>,
             ctx_keywords = \<lparr>primary_keywords = [''example''],
                              secondary_keywords = [''domain''], keyword_density = []\<rparr>,
             ctx_analysis = \<lparr>summary = ''s'', intent = ''informational'',
                              topics = [''t''], content_length = 4\<rparr>,
             ctx_prompt = ''prompt''\<rparr>, demo_world\<lparr>now := 5003 / 5\<rparr>)
   \<and> generator_generate generation_down ''prompt'' = Inl (OtherError ''model unavailable'')
   \<and> generate_blog demo_cfg demo_env generation_down demo_request demo_user demo_world
       = (Inl (HTTPException 500 ''Blog generation failed: model unavailable''),
          demo_world\<lparr>now := 10007 / 10\<rparr>)"
  using generation_failure_persists_nothing [where e = demo_env and st = generation_down
      and rq = demo_request and w = demo_world and cfg = demo_cfg and u = demo_user
      and x = "OtherError ''model unavailable''"]
  by (simp add: pipeline_defs stage_defs db_defs demo_defs Let_def)

theorem get_blog_owner_only_witness:
  "demo_ObjectId ''not-an-id'' = None
   \<and> fst (get_blog demo_ObjectId demo_env demo_world ''not-an-id'' other_user)
       = Inl (HTTPException 400 ''Invalid blog ID'')
   \<and> demo_ObjectId ''65a1b2c3d4e5f60718293a4c'' = Some ''65a1b2c3d4e5f60718293a4c''
   \<and> fst (get_blog demo_ObjectId demo_env demo_world ''65a1b2c3d4e5f60718293a4c'' other_user)
       = Inl (HTTPException 404 ''Blog not found'')
   \<and> fst (get_blog demo_ObjectId demo_env (demo_world\<lparr>blogs := []\<rparr>)
              ''65a1b2c3d4e5f60718293a4c'' other_user)
       = Inl (HTTPException 404 ''Blog not found'')
   \<and> \<not> isl (fst (get_blog demo_ObjectId demo_env demo_world ''65a1b2c3d4e5f60718293a4c''
                demo_user))
   \<and> resp_blog (projr (fst (get_blog demo_ObjectId demo_env demo_world
                              ''65a1b2c3d4e5f60718293a4c'' demo_user)))
       = bd_blog demo_blog"
  using get_blog_owner_only [where ObjectId = demo_ObjectId and e = demo_env
      and w = demo_world and u = other_user and blog_id = "''not-an-id''"]
    get_blog_owner_only [where ObjectId = demo_ObjectId and e = demo_env
      and w = demo_world and u = other_user and blog_id = "''65a1b2c3d4e5f60718293a4c''"
      and oid = "''65a1b2c3d4e5f60718293a4c''" and ?w2.0 = "demo_world\<lparr>blogs := []\<rparr>"]
    get_blog_owner_only [where ObjectId = demo_ObjectId and e = demo_env
      and w = demo_world and u = demo_user and blog_id = "''65a1b2c3d4e5f60718293a4c''"]
  by (simp add: get_blog_def demo_ObjectId_def db_defs demo_defs Let_def)

text \<open>
  C8, the counterexample.  All steps up to generation succeed and \<open>fetch_images\<close>
  raises: the response is a 200 with the featured image that \<open>get_featured_image\<close>
  had returned.
\<close>

theorem image_failure_counterexample:
  "\<not> isl (fst (run_analysis demo_env images_half_down demo_request demo_world))
   \<and> generator_generate images_half_down ''prompt'' = Inr ''draft''
   \<and> image_fetch_images images_half_down [''example''] 3 = Inl (OtherError ''rate limit'')
   \<and> fst (generate_blog demo_cfg demo_env images_half_down demo_request demo_user demo_world)
       = Inr \<lparr>resp_success = True,
              resp_blog = \<lparr>bc_title = ''Example'', bc_rest = ''draft'',
                            featured_image = Some ''image-1'', additional_images = []\<rparr>,
              resp_keywords = \<lparr>primary_keywords = [''example''],
                                secondary_keywords = [''domain''], keyword_density = []\<rparr>,
              resp_analysis = \<lparr>summary = ''s'', intent = ''informational'',
                                topics = [''t''], content_length = 4\<rparr>,
              resp_word_count = 1, resp_processing_time = 1, resp_generated_at = None\<rparr>"
  by (simp add: pipeline_defs stage_defs db_defs demo_defs Let_def)

theorem image_failure_degrades_witness:
  "fst (generate_blog demo_cfg demo_env images_down demo_request demo_user demo_world)
     = Inr \<lparr>resp_success = True,
            resp_blog = \<lparr>bc_title = ''Example'', bc_rest = ''draft'',
                          featured_image = None, additional_images = []\<rparr>,
            resp_keywords = \<lparr>primary_keywords = [''example''],
                              secondary_keywords = [''domain''], keyword_density = []\<rparr>,
            resp_analysis = \<lparr>summary = ''s'', intent = ''informational'',
                              topics = [''t''], content_length = 4\<rparr>,
            resp_word_count = 1, resp_processing_time = 9 / 10, resp_generated_at = None\<rparr>
   \<and> image_get_featured_image images_down [''example''] = Inl (OtherError ''rate limit'')
   \<and> fetch_image_stage demo_cfg demo_env images_down
         \<lparr>primary_keywords = [''example''], secondary_keywords = [''domain''],
          keyword_density = []\<rparr> (demo_world\<lparr>now := 10007 / 10\<rparr>)
       = ((None, []), demo_world\<lparr>now := 5004 / 5\<rparr>)
   \<and> image_get_featured_image images_half_down [''example''] = Inr (Some ''image-1'')
   \<and> image_fetch_images images_half_down [''example''] 3 = Inl (OtherError ''rate limit'')
   \<and> fetch_image_stage demo_cfg demo_env images_half_down
         \<lparr>primary_keywords = [''example''], secondary_keywords = [''domain''],
          keyword_density = []\<rparr> (demo_world\<lparr>now := 10007 / 10\<rparr>)
       = ((Some ''image-1'', []), demo_world\<lparr>now := 10009 / 10\<rparr>)"
  using image_failure_degrades [where e = demo_env and st = images_down
      and rq = demo_request and w = demo_world and cfg = demo_cfg and u = demo_user]
    image_failure_degrades [where e = demo_env and st = images_half_down
      and rq = demo_request and w = demo_world and cfg = demo_cfg and u = demo_user
      and f = "Some ''image-1''"]
  by (simp add: pipeline_defs stage_defs db_defs demo_defs Let_def)

subsection \<open>Protected routes\<close>

text \<open>
  C5.  A request to a protected route without an \<open>Authorization\<close> header, or with one
  that is not \<open>Bearer\<close> followed by a credential, fails with 401; the handler does not
  run (the outcome does not depend on it) and the state is as it was.
\<close>

theorem missing_bearer_is_unauthorized:
  "authorization = None
     \<or> (\<exists>h. authorization = Some h \<and> (take 7 h \<noteq> ''Bearer '' \<or> drop 7 h = [])) \<Longrightarrow>
   protected_route cfg jw handler authorization w
     = (Inl (HTTPException 401 ''Not authenticated''), w)
   \<and> status_code (fst (protected_route cfg jw handler authorization w)) = 401"
  by (auto simp: protected_route_def security_def)

theorem missing_bearer_is_unauthorized_witness:
  "protected_route demo_cfg demo_jose (\<lambda>cu s. logout demo_env s cu) None demo_world
     = (Inl (HTTPException 401 ''Not authenticated''), demo_world)
   \<and> take 7 ''Basic dTE6cHcx'' \<noteq> ''Bearer ''
   \<and> protected_route demo_cfg demo_jose (\<lambda>cu s. logout demo_env s cu) (Some ''Basic dTE6cHcx'') demo_world
     = (Inl (HTTPException 401 ''Not authenticated''), demo_world)
   \<and> fst (protected_route demo_cfg demo_jose (\<lambda>cu s. logout demo_env s cu) (Some ''Bearer signed'')
            demo_world)
     = Inr ''Logged out successfully''"
  using missing_bearer_is_unauthorized [where authorization = None and cfg = demo_cfg
      and jw = demo_jose and handler = "\<lambda>cu s. logout demo_env s cu" and w = demo_world]
    missing_bearer_is_unauthorized [where authorization = "Some ''Basic dTE6cHcx''"
      and cfg = demo_cfg and jw = demo_jose and handler = "\<lambda>cu s. logout demo_env s cu"
      and w = demo_world]
  by (simp add: protected_route_def security_def get_current_user_def verify_token_def
        logout_def db_defs demo_defs dict_get_def fromtimestamp_def mk_TokenData_def)


end
